theory Spec2Isabelle
  imports Main
begin

section \<open>Values, errors and the output stream\<close>

text \<open>
  The functions of \<^verbatim>\<open>auth.js\<close> take two arguments that the specification calls text.
  JavaScript does not check that: an argument left out by the caller arrives as
  \<^verbatim>\<open>undefined\<close>, and a caller may pass \<^verbatim>\<open>null\<close>. An argument is
  therefore a string or one of the two missing values. A string is the list of its code
  units, one \<^typ>\<open>char\<close> for each, so that \<^verbatim>\<open>.length\<close> is the length of the
  list. The functions never look at the value of a code unit, only at how many there are
  and, in the message of \<^verbatim>\<open>login\<close>, at the sequence as a whole.
\<close>

datatype arg = Str string | Undefined | Null

text \<open>Reading a property of \<^verbatim>\<open>undefined\<close> or \<^verbatim>\<open>null\<close> throws a TypeError.\<close>

datatype error = TypeError

text \<open>What a call hands back to its caller: a boolean, or nothing (\<^verbatim>\<open>undefined\<close>).\<close>

datatype retval = RetBool bool | RetUndefined

text \<open>The output stream is the list of the messages written so far, oldest first.\<close>

type_synonym console = "string list"

definition console_log :: "string \<Rightarrow> console \<Rightarrow> console" where
  "console_log msg out = out @ [msg]"

text \<open>\<^verbatim>\<open>x.length\<close>: the number of code units of a string, a TypeError on a missing value.\<close>

fun js_length :: "arg \<Rightarrow> error + nat" where
  "js_length (Str s) = Inr (length s)"
| "js_length Undefined = Inl TypeError"
| "js_length Null = Inl TypeError"

text \<open>The conversion that \<^verbatim>\<open>'User ' + username\<close> applies to its right operand.\<close>

fun to_string :: "arg \<Rightarrow> string" where
  "to_string (Str s) = s"
| "to_string Undefined = ''undefined''"
| "to_string Null = ''null''"

section \<open>The three functions of auth.js\<close>

text \<open>
  \<^verbatim>\<open>return username.length > 0 && password.length >= 6;\<close>
  The left operand is evaluated first; \<^verbatim>\<open>&&\<close> evaluates the right operand only when
  the left one is true, so \<^verbatim>\<open>password.length\<close> is not read for an empty username.
\<close>

definition validateCredentials :: "arg \<Rightarrow> arg \<Rightarrow> error + bool" where
  "validateCredentials username password =
     (case js_length username of
        Inl e \<Rightarrow> Inl e
      | Inr n \<Rightarrow>
          if 0 < n then
            (case js_length password of
               Inl e \<Rightarrow> Inl e
             | Inr m \<Rightarrow> Inr (6 \<le> m))
          else Inr False)"

text \<open>
  \<^verbatim>\<open>login\<close> branches on the result of \<^verbatim>\<open>validateCredentials\<close>, writes one line and
  returns the matching boolean. An exception of \<^verbatim>\<open>validateCredentials\<close> is not caught:
  it leaves \<^verbatim>\<open>login\<close> before anything is written.
\<close>

definition login :: "arg \<Rightarrow> arg \<Rightarrow> console \<Rightarrow> (error + bool) \<times> console" where
  "login username password out =
     (case validateCredentials username password of
        Inl e \<Rightarrow> (Inl e, out)
      | Inr ok \<Rightarrow>
          if ok then
            (Inr True,
             console_log (''User '' @ to_string username @ '' logged in successfully'') out)
          else (Inr False, console_log ''Login failed'' out))"

text \<open>\<^verbatim>\<open>logout\<close> writes one line and falls off its end, which returns \<^verbatim>\<open>undefined\<close>.\<close>

definition logout :: "console \<Rightarrow> (error + retval) \<times> console" where
  "logout out = (Inr RetUndefined, console_log ''User logged out'' out)"

section \<open>Sequences of calls\<close>

text \<open>
  A client of the module makes calls one after the other on the same output stream and
  records what each call gave: the value returned, or the exception thrown.
\<close>

datatype call = Login arg arg | Logout | Validate arg arg

fun exec :: "call \<Rightarrow> console \<Rightarrow> (error + retval) \<times> console" where
  "exec (Login u p) out = (case login u p out of (r, out') \<Rightarrow> (map_sum id RetBool r, out'))"
| "exec Logout out = logout out"
| "exec (Validate u p) out = (map_sum id RetBool (validateCredentials u p), out)"

fun run :: "call list \<Rightarrow> console \<Rightarrow> (error + retval) list \<times> console" where
  "run [] out = ([], out)"
| "run (c # cs) out =
     (case exec c out of (r, out') \<Rightarrow>
        (case run cs out' of (rs, out'') \<Rightarrow> (r # rs, out'')))"

section \<open>Basic facts\<close>

lemma validate_strings:
  "validateCredentials (Str u) (Str p) = Inr (u \<noteq> [] \<and> 6 \<le> length p)"
  by (simp add: validateCredentials_def)

lemma validate_missing_username:
  "validateCredentials Undefined q = Inl TypeError"
  "validateCredentials Null q = Inl TypeError"
  by (simp_all add: validateCredentials_def)

lemma validate_missing_password:
  "validateCredentials (Str u) Undefined = (if u = [] then Inr False else Inl TypeError)"
  "validateCredentials (Str u) Null = (if u = [] then Inr False else Inl TypeError)"
  by (simp_all add: validateCredentials_def)

lemma validate_true_is_string:
  "validateCredentials u p = Inr True \<Longrightarrow> \<exists>name. u = Str name"
  by (cases u) (simp_all add: validateCredentials_def)

lemma login_result: "fst (login u p out) = validateCredentials u p"
  by (cases "validateCredentials u p") (simp_all add: login_def)

lemma login_stream_true:
  "validateCredentials u p = Inr True \<Longrightarrow>
   snd (login u p out) = out @ [''User '' @ to_string u @ '' logged in successfully'']"
  by (simp add: login_def console_log_def)

lemma login_stream_false:
  "validateCredentials u p = Inr False \<Longrightarrow> snd (login u p out) = out @ [''Login failed'']"
  by (simp add: login_def console_log_def)

lemma login_stream_error:
  "validateCredentials u p = Inl e \<Longrightarrow> login u p out = (Inl e, out)"
  by (simp add: login_def)

lemma exec_login_result:
  "fst (exec (Login u p) out) = map_sum id RetBool (validateCredentials u p)"
proof -
  have "fst (exec (Login u p) out) = map_sum id RetBool (fst (login u p out))"
    by (simp add: split_beta)
  then show ?thesis by (simp only: login_result)
qed

lemma exec_result_any_stream: "fst (exec c out) = fst (exec c out')"
proof (cases c)
  case (Login u p)
  then show ?thesis by (simp only: exec_login_result)
next
  case Logout
  then show ?thesis by (simp add: logout_def)
next
  case (Validate u p)
  then show ?thesis by simp
qed

lemma run_results: "fst (run cs out) = map (\<lambda>c. fst (exec c out')) cs"
proof (induction cs arbitrary: out)
  case Nil
  show ?case by simp
next
  case (Cons c cs)
  have "fst (run (c # cs) out) = fst (exec c out) # fst (run cs (snd (exec c out)))"
    by (simp add: split_beta)
  also have "\<dots> = fst (exec c out') # map (\<lambda>c. fst (exec c out')) cs"
    using Cons.IH [of "snd (exec c out)"] exec_result_any_stream [of c out out'] by simp
  finally show ?case by simp
qed

section \<open>The credential check\<close>

text \<open>
  Claim C1. For every username string and password string, \<^verbatim>\<open>validateCredentials\<close>
  returns a boolean, and that boolean is true exactly when the username is not empty and
  the password has at least 6 code units. The right-hand side mentions nothing else, so
  no other property of the two strings has any influence.
\<close>

theorem validate_iff_nonempty_and_six:
  "validateCredentials (Str u) (Str p) = Inr (u \<noteq> [] \<and> 6 \<le> length p)"
  by (rule validate_strings)

text \<open>
  Claim C2. Whatever the two arguments and whatever has been written before,
  \<^verbatim>\<open>login\<close> gives its caller what \<^verbatim>\<open>validateCredentials\<close> gives on the same
  arguments (the same boolean, or the same exception). The output stream does not occur
  on the right-hand side.
\<close>

theorem login_returns_validate:
  "fst (login u p out) = validateCredentials u p"
  by (rule login_result)

text \<open>
  Claim C3, as stated, fails: a missing username makes \<^verbatim>\<open>username.length\<close> throw a
  TypeError, in \<^verbatim>\<open>validateCredentials\<close> and, uncaught, in \<^verbatim>\<open>login\<close>, which then
  writes nothing. The result is not the boolean false.
\<close>

theorem missing_username_raises_counterexample:
  "validateCredentials Undefined (Str ''secret1'') = Inl TypeError \<and>
   validateCredentials Undefined (Str ''secret1'') \<noteq> Inr False \<and>
   login Undefined (Str ''secret1'') [] = (Inl TypeError, [])"
  by (simp add: validateCredentials_def login_def)

text \<open>
  Claim C3, amended. On two strings neither function raises: both return the same
  boolean, so the only failure outcome there is false. A missing username raises a
  TypeError in both functions, whatever the password. A missing password raises a
  TypeError after a non-empty username and yields false after the empty username,
  because \<^verbatim>\<open>&&\<close> then never reads \<^verbatim>\<open>password.length\<close>. When an exception is
  raised, \<^verbatim>\<open>login\<close> leaves the output stream as it was.
\<close>

theorem strings_never_raise_missing_raises:
  "(\<exists>b. validateCredentials (Str u) (Str p) = Inr b \<and> fst (login (Str u) (Str p) out) = Inr b) \<and>
   validateCredentials Undefined q = Inl TypeError \<and>
   validateCredentials Null q = Inl TypeError \<and>
   login Undefined q out = (Inl TypeError, out) \<and>
   login Null q out = (Inl TypeError, out) \<and>
   validateCredentials (Str (c # cs)) Undefined = Inl TypeError \<and>
   validateCredentials (Str (c # cs)) Null = Inl TypeError \<and>
   login (Str (c # cs)) Undefined out = (Inl TypeError, out) \<and>
   login (Str (c # cs)) Null out = (Inl TypeError, out) \<and>
   validateCredentials (Str []) Undefined = Inr False \<and>
   validateCredentials (Str []) Null = Inr False \<and>
   fst (login (Str []) Undefined out) = Inr False \<and>
   fst (login (Str []) Null out) = Inr False"
proof -
  have strings: "\<exists>b. validateCredentials (Str u) (Str p) = Inr b \<and>
      fst (login (Str u) (Str p) out) = Inr b"
    by (simp add: login_result validate_strings)
  have username: "login Undefined q out = (Inl TypeError, out)"
      "login Null q out = (Inl TypeError, out)"
    by (simp_all add: login_stream_error validate_missing_username)
  have password: "login (Str (c # cs)) Undefined out = (Inl TypeError, out)"
      "login (Str (c # cs)) Null out = (Inl TypeError, out)"
    by (simp_all add: login_stream_error validate_missing_password)
  have short_circuit: "fst (login (Str []) Undefined out) = Inr False"
      "fst (login (Str []) Null out) = Inr False"
    by (simp_all add: login_result validate_missing_password)
  show ?thesis
    using strings username password short_circuit
    by (simp add: validate_missing_username validate_missing_password)
qed

text \<open>
  Claim C4. With the empty username, \<^verbatim>\<open>validateCredentials\<close> returns false for every
  password string.
\<close>

theorem empty_username_fails:
  "validateCredentials (Str '''') (Str p) = Inr False"
  by (simp add: validate_strings)

text \<open>
  Claim C5. The boundary of the password rule: with the username \<^verbatim>\<open>alice\<close>, the
  5-character password \<^verbatim>\<open>12345\<close> gives false and the 6-character password
  \<^verbatim>\<open>123456\<close> gives true.
\<close>

theorem password_length_boundary:
  "validateCredentials (Str ''alice'') (Str ''12345'') = Inr False \<and>
   validateCredentials (Str ''alice'') (Str ''123456'') = Inr True"
  by (simp add: validate_strings)

text \<open>
  Claim C9. Only the length of the password is consulted: for every username argument,
  two password strings of the same length give the same outcome.
\<close>

theorem password_content_irrelevant:
  "length p1 = length p2 \<Longrightarrow>
   validateCredentials u (Str p1) = validateCredentials u (Str p2)"
  by (cases "js_length u") (simp_all add: validateCredentials_def)

theorem password_content_irrelevant_witness:
  "length ''123456'' = length ''qwerty'' \<and>
   validateCredentials (Str ''alice'') (Str ''123456'') =
   validateCredentials (Str ''alice'') (Str ''qwerty'') \<and>
   validateCredentials (Str ''alice'') (Str ''qwerty'') = Inr True"
proof -
  have same: "length ''123456'' = length ''qwerty''" by simp
  show ?thesis
    using same password_content_irrelevant [OF same, of "Str ''alice''"]
    by (simp add: validate_strings)
qed

section \<open>The output stream\<close>

text \<open>
  Claim C6. \<^verbatim>\<open>logout\<close> is defined outright, without recursion, so it returns on every
  output stream. It never raises: it returns no value (\<^verbatim>\<open>undefined\<close>) and appends
  exactly the one line \<^verbatim>\<open>User logged out\<close> to the stream, which is otherwise unchanged.
  The same holds on the stream left by any sequence of earlier calls.
\<close>

theorem logout_always_completes:
  "logout out = (Inr RetUndefined, out @ [''User logged out'']) \<and>
   exec Logout (snd (run history out)) =
     (Inr RetUndefined, snd (run history out) @ [''User logged out''])"
  by (simp add: logout_def console_log_def)

text \<open>
  Claim C7. The outcome of a call does not depend on the output stream it starts from,
  which is the only thing calls leave behind. So two calls with the same arguments give
  the same outcome, a call made after another call gives what it gives without it, and
  in any sequence of calls every outcome is the one the call gives on its own, on an
  empty stream.
\<close>

theorem calls_are_stateless:
  "fst (exec c out) = fst (exec c out') \<and>
   fst (exec c (snd (exec c' out))) = fst (exec c out) \<and>
   fst (run cs out) = map (\<lambda>c. fst (exec c [])) cs"
  using exec_result_any_stream [of c out out']
    exec_result_any_stream [of c "snd (exec c' out)" out]
    run_results [of cs out "[]"]
  by simp

text \<open>
  Claim C8, as stated, fails: the claim speaks of every input pair, and with a missing
  username \<^verbatim>\<open>validateCredentials\<close> throws before \<^verbatim>\<open>login\<close> reaches either
  \<^verbatim>\<open>console.log\<close>. The call writes no message at all: the stream afterwards is the
  stream before, one line long and not two.
\<close>

theorem login_missing_writes_nothing_counterexample:
  "login Undefined (Str ''secret1'') [''earlier''] = (Inl TypeError, [''earlier'']) \<and>
   length (snd (login Undefined (Str ''secret1'') [''earlier''])) \<noteq> length [''earlier''] + 1"
  by (simp add: login_def validateCredentials_def)

text \<open>
  Claim C8, amended. On two strings, \<^verbatim>\<open>login\<close> appends exactly one message to the
  output stream and changes nothing that was there: the status message when
  \<^verbatim>\<open>validateCredentials\<close> returns true, the failure message when it returns false.
  On any two arguments the same holds whenever \<^verbatim>\<open>validateCredentials\<close> returns a
  boolean; when it raises, \<^verbatim>\<open>login\<close> leaves the stream exactly as it was.
\<close>

theorem login_writes_one_message:
  "snd (login (Str u) (Str p) out) =
     out @ [if validateCredentials (Str u) (Str p) = Inr True
            then ''User '' @ u @ '' logged in successfully''
            else ''Login failed''] \<and>
   snd (login u' p' out) =
     (case validateCredentials u' p' of
        Inl e \<Rightarrow> out
      | Inr ok \<Rightarrow>
          out @ [if ok then ''User '' @ to_string u' @ '' logged in successfully''
                 else ''Login failed''])"
proof
  show "snd (login (Str u) (Str p) out) =
     out @ [if validateCredentials (Str u) (Str p) = Inr True
            then ''User '' @ u @ '' logged in successfully''
            else ''Login failed'']"
    by (simp add: login_def console_log_def validate_strings)
next
  show "snd (login u' p' out) =
     (case validateCredentials u' p' of
        Inl e \<Rightarrow> out
      | Inr ok \<Rightarrow>
          out @ [if ok then ''User '' @ to_string u' @ '' logged in successfully''
                 else ''Login failed''])"
  proof (cases "validateCredentials u' p'")
    case (Inl e)
    then show ?thesis by (simp add: login_stream_error)
  next
    case (Inr ok)
    then show ?thesis
      by (cases ok) (simp_all add: login_stream_true login_stream_false)
  qed
qed

text \<open>
  Claim C10. When the check succeeds the username is a string, and the message written
  is \<^verbatim>\<open>User \<close>, then the username exactly as the caller gave it, then
  \<^verbatim>\<open> logged in successfully\<close>. When the check returns false the message is the fixed
  text \<^verbatim>\<open>Login failed\<close>: two failing calls on the same stream leave the same stream,
  whichever username was given and whichever rule failed.
\<close>

theorem login_message_text:
  "(validateCredentials u p = Inr True \<longrightarrow>
      (\<exists>name. u = Str name \<and>
         snd (login u p out) = out @ [''User '' @ name @ '' logged in successfully''])) \<and>
   (validateCredentials u1 p1 = Inr False \<longrightarrow>
      snd (login u1 p1 out) = out @ [''Login failed'']) \<and>
   (validateCredentials u1 p1 = Inr False \<and> validateCredentials u2 p2 = Inr False \<longrightarrow>
      snd (login u1 p1 out) = snd (login u2 p2 out))"
proof (intro conjI impI)
  assume ok: "validateCredentials u p = Inr True"
  then obtain name where "u = Str name"
    using validate_true_is_string by blast
  with login_stream_true [OF ok, of out]
  show "\<exists>name. u = Str name \<and>
      snd (login u p out) = out @ [''User '' @ name @ '' logged in successfully'']"
    by simp
next
  assume "validateCredentials u1 p1 = Inr False"
  then show "snd (login u1 p1 out) = out @ [''Login failed'']"
    by (rule login_stream_false)
next
  assume "validateCredentials u1 p1 = Inr False \<and> validateCredentials u2 p2 = Inr False"
  then show "snd (login u1 p1 out) = snd (login u2 p2 out)"
    by (simp add: login_stream_false)
qed

theorem login_message_text_witness:
  "validateCredentials (Str ''<b>al ice'') (Str ''123456'') = Inr True \<and>
   snd (login (Str ''<b>al ice'') (Str ''123456'') [''x'']) =
     [''x'', ''User <b>al ice logged in successfully''] \<and>
   validateCredentials (Str '''') (Str ''123456'') = Inr False \<and>
   validateCredentials (Str ''bob'') (Str ''123'') = Inr False \<and>
   snd (login (Str '''') (Str ''123456'') [''x'']) = [''x'', ''Login failed''] \<and>
   snd (login (Str '''') (Str ''123456'') [''x'']) = snd (login (Str ''bob'') (Str ''123'') [''x''])"
  using login_message_text [of "Str ''<b>al ice''" "Str ''123456''" "[''x'']"
      "Str ''''" "Str ''123456''" "Str ''bob''" "Str ''123''"]
  by (auto simp add: validate_strings)

end
